theory Spec2Isabelle
  imports Complex_Main
begin

section \<open>The amortization engine of \<open>src/lib/calculations.ts\<close>\<close>

text \<open>
  The engine computes on JavaScript numbers. Every finite IEEE double is a real number,
  so amounts and rates are modelled as \<^typ>\<open>real\<close> and the arithmetic operators as the
  exact field operations: the model leaves out the rounding error of each floating-point
  operation, overflow, and the values \<open>Infinity\<close> and \<open>NaN\<close> (which the source
  produces where it divides by zero or is handed them). Term lengths and payment counts
  are integer counts and are modelled as \<^typ>\<open>int\<close>. Every concrete input that is
  evaluated below to contradict a statement was also traced by hand in double
  arithmetic, where the stored cents are the same.
\<close>

subsection \<open>Numbers\<close>

text \<open>\<open>Math.round\<close> rounds to the nearest integer, a tie going up.\<close>

definition Math_round :: "real \<Rightarrow> int" where
  "Math_round x = \<lfloor>x + 1 / 2\<rfloor>"

text \<open>The idiom \<open>Math.round(x * 100) / 100\<close> of the source.\<close>

definition round2 :: "real \<Rightarrow> real" where
  "round2 x = of_int (Math_round (x * 100)) / 100"

text \<open>\<open>Math.pow\<close> at an integer exponent.\<close>

definition Math_pow :: "real \<Rightarrow> int \<Rightarrow> real" where
  "Math_pow x n = (if 0 \<le> n then x ^ nat n else 1 / x ^ nat (- n))"

text \<open>A value with at most two decimals.\<close>

definition is_cents :: "real \<Rightarrow> bool" where
  "is_cents x = (of_int \<lfloor>x * 100\<rfloor> = x * 100)"

subsection \<open>Payment formula and derived metrics\<close>

text \<open>
  The first parameter is \<open>principal\<close> in the source; the name is taken by a constant
  of the library, hence the prime.
\<close>

definition calculateMonthlyPayment :: "real \<Rightarrow> real \<Rightarrow> int \<Rightarrow> real" where
  "calculateMonthlyPayment principal' annualRate months =
     (if principal' \<le> 0 \<or> months \<le> 0 then 0
      else if annualRate = 0 then principal' / of_int months
      else
        let monthlyRate = annualRate / 100 / 12;
            numerator = monthlyRate * Math_pow (1 + monthlyRate) months;
            denominator = Math_pow (1 + monthlyRate) months - 1
        in principal' * (numerator / denominator))"

text \<open>
  The payment formula in the words of the specification, for comparison with the
  function above.
\<close>

definition monthlyPayment_spec :: "real \<Rightarrow> real \<Rightarrow> int \<Rightarrow> real" where
  "monthlyPayment_spec p annualRatePercent termMonths =
     (if p \<le> 0 \<or> termMonths \<le> 0 then 0
      else if annualRatePercent = 0 then p / of_int termMonths
      else
        let r = annualRatePercent / 100 / 12
        in p * (r * (1 + r) ^ nat termMonths) / ((1 + r) ^ nat termMonths - 1))"

definition calculateTotalPayment :: "real \<Rightarrow> int \<Rightarrow> real \<Rightarrow> real" where
  "calculateTotalPayment monthlyPayment months downPayment =
     monthlyPayment * of_int months + downPayment"

definition calculateFinanceAmount :: "real \<Rightarrow> real \<Rightarrow> real" where
  "calculateFinanceAmount salePrice downPayment = max 0 (salePrice - downPayment)"

subsection \<open>Remaining balance\<close>




subsection \<open>Dates\<close>

text \<open>
  Modelled from the spec: \<open>addMonths\<close> of the library date-fns, which is not part of
  the repository. A date is a calendar day (year, month 1 to 12, day of the month);
  adding months keeps the day of the month and clamps it to the last day of a shorter
  target month.
\<close>

datatype Date = Date int int int

definition daysInMonth :: "int \<Rightarrow> int \<Rightarrow> int" where
  "daysInMonth y m =
     (if m = 2 then
        (if y mod 4 = 0 \<and> (y mod 100 \<noteq> 0 \<or> y mod 400 = 0) then 29 else 28)
      else if m = 4 \<or> m = 6 \<or> m = 9 \<or> m = 11 then 30
      else 31)"

fun addMonths :: "Date \<Rightarrow> int \<Rightarrow> Date" where
  "addMonths (Date y m d) n =
     (let t = y * 12 + (m - 1) + n;
          y' = t div 12;
          m' = t mod 12 + 1
      in Date y' m' (min d (daysInMonth y' m')))"

subsection \<open>Schedule generator\<close>

record AmortizationEntry =
  payment_number :: int
  due_date :: Date
  amount_due :: real
  principal :: real
  interest :: real
  balance :: real

text \<open>
  The loop \<open>for (let i = 1; i <= months; i++)\<close>: \<open>bal\<close> is the running balance on
  entry to the iteration and \<open>schedule\<close> the entries pushed so far.
\<close>

function schedule_loop ::
  "real \<Rightarrow> real \<Rightarrow> real \<Rightarrow> int \<Rightarrow> Date \<Rightarrow> int \<Rightarrow> real \<Rightarrow> AmortizationEntry list
     \<Rightarrow> AmortizationEntry list" where
  "schedule_loop annualRate monthlyPayment monthlyRate months startDate i bal schedule =
     (if i \<le> months then
        let interest = (if annualRate = 0 then 0 else bal * monthlyRate);
            principal = monthlyPayment - interest;
            balance = max 0 (bal - principal);
            adjustedPrincipal = (if i = months then balance + principal else principal);
            adjustedPayment =
              (if i = months then adjustedPrincipal + interest else monthlyPayment)
        in schedule_loop annualRate monthlyPayment monthlyRate months startDate (i + 1)
             balance
             (schedule @
                [\<lparr>payment_number = i,
                  due_date = addMonths startDate i,
                  amount_due = round2 adjustedPayment,
                  principal = round2 adjustedPrincipal,
                  interest = round2 interest,
                  balance = (if i = months then 0 else round2 balance)\<rparr>])
      else schedule)"
  by pat_completeness auto
termination
  by (relation "measure (\<lambda>(a, mp, mr, months, sd, i, b, s). nat (months + 1 - i))") auto

declare schedule_loop.simps [simp del]

definition generateAmortizationSchedule ::
  "real \<Rightarrow> real \<Rightarrow> int \<Rightarrow> Date \<Rightarrow> AmortizationEntry list" where
  "generateAmortizationSchedule financeAmount annualRate months startDate =
     (let monthlyPayment = calculateMonthlyPayment financeAmount annualRate months;
          monthlyRate = annualRate / 100 / 12
      in schedule_loop annualRate monthlyPayment monthlyRate months startDate 1
           financeAmount [])"

subsection \<open>Sale details\<close>

record SaleFormData =
  property_id :: string
  buyer_id :: string
  sale_date :: string
  sale_price :: real
  down_payment :: real
  interest_rate :: real
  term_months :: int

record SaleDetails =
  finance_amount :: real
  monthly_payment :: real
  total_payment :: real

definition calculateSaleDetails :: "SaleFormData \<Rightarrow> SaleDetails" where
  "calculateSaleDetails formData =
     (let financeAmount = calculateFinanceAmount (sale_price formData) (down_payment formData);
          monthlyPayment =
            calculateMonthlyPayment financeAmount (interest_rate formData) (term_months formData);
          totalPayment =
            calculateTotalPayment monthlyPayment (term_months formData) (down_payment formData)
      in \<lparr>finance_amount = round2 financeAmount,
          monthly_payment = round2 monthlyPayment,
          total_payment = round2 totalPayment\<rparr>)"

subsection \<open>Payoff amount\<close>

text \<open>
  The argument of \<open>calculatePayoffAmount\<close> is any list of objects with the fields
  \<open>status\<close> and \<open>principal\<close>; the record scheme leaves room for the other fields of a
  payment row.
\<close>

record PaymentRow =
  status :: string
  principal :: real

definition calculatePayoffAmount :: "'a PaymentRow_scheme list \<Rightarrow> real" where
  "calculatePayoffAmount payments =
     (let paidPrincipal =
            foldl (\<lambda>sum p. sum + PaymentRow.principal p) 0
              (filter (\<lambda>p. status p = ''paid'') payments);
          totalPrincipal = foldl (\<lambda>sum p. sum + PaymentRow.principal p) 0 payments
      in round2 (totalPrincipal - paidPrincipal))"

subsection \<open>One iteration of the schedule loop\<close>

text \<open>
  The body of the schedule loop, split into the balance it carries to the next
  iteration and the entry it pushes. Lemma \<open>schedule_loop_unfold\<close> below shows that
  the loop is the iteration of the two.
\<close>

definition next_balance :: "real \<Rightarrow> real \<Rightarrow> real \<Rightarrow> real \<Rightarrow> real" where
  "next_balance annualRate monthlyPayment monthlyRate bal =
     max 0 (bal - (monthlyPayment - (if annualRate = 0 then 0 else bal * monthlyRate)))"

definition pushed_entry ::
  "real \<Rightarrow> real \<Rightarrow> real \<Rightarrow> int \<Rightarrow> Date \<Rightarrow> int \<Rightarrow> real \<Rightarrow> AmortizationEntry" where
  "pushed_entry annualRate monthlyPayment monthlyRate months startDate i bal =
     (let interest = (if annualRate = 0 then 0 else bal * monthlyRate);
          principal = monthlyPayment - interest;
          balance = max 0 (bal - principal);
          adjustedPrincipal = (if i = months then balance + principal else principal);
          adjustedPayment =
            (if i = months then adjustedPrincipal + interest else monthlyPayment)
      in \<lparr>payment_number = i,
          due_date = addMonths startDate i,
          amount_due = round2 adjustedPayment,
          principal = round2 adjustedPrincipal,
          interest = round2 interest,
          balance = (if i = months then 0 else round2 balance)\<rparr>)"


section \<open>Rounding to cents\<close>


lemma round2_zero: "round2 0 = 0"
  by (simp add: round2_def Math_round_def)


lemma is_cents_round2: "is_cents (round2 x)"
  by (simp add: is_cents_def round2_def)



section \<open>The schedule loop as an iteration\<close>

lemma schedule_loop_append:
  "schedule_loop a mp mr months sd i bal (acc @ acc') =
   acc @ schedule_loop a mp mr months sd i bal acc'"
proof (induction a mp mr months sd i bal acc' rule: schedule_loop.induct)
  case (1 a mp mr months sd i bal sch)
  show ?case
  proof (cases "i \<le> months")
    case True
    then show ?thesis
      using "1.IH"[OF True refl refl refl refl refl]
      by (subst (1 2) schedule_loop.simps) (simp add: Let_def)
  next
    case False
    then show ?thesis by (simp add: schedule_loop.simps)
  qed
qed

lemma schedule_loop_unfold:
  "schedule_loop a mp mr months sd i bal [] =
     (if i \<le> months
      then pushed_entry a mp mr months sd i bal
             # schedule_loop a mp mr months sd (i + 1) (next_balance a mp mr bal) []
      else [])"
proof (cases "i \<le> months")
  case True
  have "schedule_loop a mp mr months sd i bal [] =
        schedule_loop a mp mr months sd (i + 1) (next_balance a mp mr bal)
          ([pushed_entry a mp mr months sd i bal] @ [])"
    using True
    by (subst schedule_loop.simps) (simp add: Let_def pushed_entry_def next_balance_def)
  also have "\<dots> = [pushed_entry a mp mr months sd i bal]
          @ schedule_loop a mp mr months sd (i + 1) (next_balance a mp mr bal) []"
    by (rule schedule_loop_append)
  finally show ?thesis using True by simp
next
  case False
  then show ?thesis by (simp add: schedule_loop.simps)
qed

lemma schedule_loop_length:
  "length (schedule_loop a mp mr months sd i bal []) = nat (months + 1 - i)"
proof (induction "nat (months + 1 - i)" arbitrary: i bal)
  case 0
  then have "\<not> i \<le> months" by simp
  then show ?case by (simp add: schedule_loop_unfold)
next
  case (Suc n)
  then have le: "i \<le> months" and n: "n = nat (months + 1 - (i + 1))" by simp_all
  show ?case
    using Suc.hyps(1)[OF n] le by (subst schedule_loop_unfold) simp
qed

lemma schedule_length:
  "length (generateAmortizationSchedule fa ar months d) = nat months"
  by (simp add: generateAmortizationSchedule_def Let_def schedule_loop_length)

text \<open>A property of every pushed entry holds for every entry of the schedule.\<close>

lemma schedule_loop_all:
  assumes "\<And>i bal. P (pushed_entry a mp mr months sd i bal)"
  shows "\<forall>e \<in> set (schedule_loop a mp mr months sd i bal []). P e"
proof (induction "nat (months + 1 - i)" arbitrary: i bal)
  case 0
  then have "\<not> i \<le> months" by simp
  then show ?case by (simp add: schedule_loop_unfold)
next
  case (Suc n)
  then have le: "i \<le> months" and n: "n = nat (months + 1 - (i + 1))" by simp_all
  show ?case
    using Suc.hyps(1)[OF n] le assms by (subst schedule_loop_unfold) simp
qed


section \<open>Balances along the schedule\<close>









section \<open>Entries of the schedule\<close>


lemma pushed_entry_zero_rate:
  "interest (pushed_entry 0 mp mr months sd i bal) = 0 \<and>
   AmortizationEntry.principal (pushed_entry 0 mp mr months sd i bal)
     = amount_due (pushed_entry 0 mp mr months sd i bal)"
  by (simp add: pushed_entry_def Let_def round2_zero)

lemma zero_rate_entries:
  "\<forall>e \<in> set (generateAmortizationSchedule fa 0 months d).
     interest e = 0 \<and> AmortizationEntry.principal e = amount_due e"
  unfolding generateAmortizationSchedule_def Let_def
  by (rule schedule_loop_all) (rule pushed_entry_zero_rate)

lemma next_balance_zero: "next_balance a 0 mr 0 = 0"
  by (simp add: next_balance_def)

lemma pushed_entry_zero:
  "amount_due (pushed_entry a 0 mr months sd i 0) = 0 \<and>
   AmortizationEntry.principal (pushed_entry a 0 mr months sd i 0) = 0 \<and>
   interest (pushed_entry a 0 mr months sd i 0) = 0 \<and>
   balance (pushed_entry a 0 mr months sd i 0) = 0"
  by (simp add: pushed_entry_def Let_def round2_zero)

lemma schedule_loop_zero:
  "\<forall>e \<in> set (schedule_loop a 0 mr months sd i 0 []).
     amount_due e = 0 \<and> AmortizationEntry.principal e = 0 \<and> interest e = 0 \<and> balance e = 0"
proof (induction "nat (months + 1 - i)" arbitrary: i)
  case 0
  then have "\<not> i \<le> months" by simp
  then show ?case by (simp add: schedule_loop_unfold)
next
  case (Suc n)
  then have le: "i \<le> months" and n: "n = nat (months + 1 - (i + 1))" by simp_all
  show ?case
    using Suc.hyps(1)[OF n] le pushed_entry_zero[of a mr months sd i]
    by (subst schedule_loop_unfold) (simp add: next_balance_zero)
qed


lemma foldl_sum: "foldl (\<lambda>sum p. sum + f p) (s::real) ps = s + sum_list (map f ps)"
  by (induction ps arbitrary: s) simp_all

section \<open>Properties of the engine\<close>

text \<open>
  C1 states that the stored, rounded principal of all entries sums to
  \<open>round2(financeAmount)\<close>. The last iteration adds the balance left after the
  subtraction to the unrounded principal portion (the source's comment: adjust last
  payment for rounding), but every entry is rounded on its own afterwards, so the cents
  lost or gained by the roundings stay in the sum. For 100 at rate 0 over 3 months each
  entry stores 33.33 and the sum is 99.99, not 100.
\<close>

theorem principal_sum_100_0_3:
  "sum_list (map AmortizationEntry.principal
      (generateAmortizationSchedule 100 0 3 (Date 2024 1 15))) = 9999 / 100 \<and>
   round2 100 = 100"
  by (simp add: generateAmortizationSchedule_def calculateMonthlyPayment_def
      schedule_loop.simps Let_def round2_def Math_round_def daysInMonth_def)

text \<open>
  C2 states that the schedule is empty whenever the term is 0 or the finance amount is
  not positive. The loop is guarded by the term alone: a finance amount of 0 over 60
  months gives a schedule that is not empty.
\<close>

theorem zero_amount_schedule_not_empty:
  "generateAmortizationSchedule 0 5 60 (Date 2024 1 15) \<noteq> []"
proof
  assume "generateAmortizationSchedule 0 5 60 (Date 2024 1 15) = []"
  then have "length (generateAmortizationSchedule 0 5 60 (Date 2024 1 15)) = 0" by simp
  then show False by (simp add: schedule_length)
qed

text \<open>
  C2, as the code has it: the schedule is empty whenever the term is 0, whatever the
  finance amount, in particular for (1000, 5, 0, d); for (0, 5, 60, d) it has 60
  entries.
\<close>

theorem zero_term_schedule_empty:
  "generateAmortizationSchedule fa ar 0 d = [] \<and>
   generateAmortizationSchedule 1000 5 0 d = [] \<and>
   length (generateAmortizationSchedule 0 5 60 d) = 60"
proof -
  have "length (generateAmortizationSchedule x y 0 d) = 0" for x y
    by (simp add: schedule_length)
  then have "generateAmortizationSchedule x y 0 d = []" for x y
    by (simp only: length_0_conv)
  then show ?thesis by (simp add: schedule_length)
qed

text \<open>
  C3 states that at rate 0 every entry has interest 0 and a principal equal to its
  amount due (lemma \<open>zero_rate_entries\<close> above proves this part for every input), and
  that the stored principal sums to the finance amount. For 200 at rate 0 over 3 months
  the three entries store interest 0 and principal 66.67 = amount due, and the sum is
  200.01, not 200.
\<close>

theorem zero_rate_schedule_200_0_3:
  "map (\<lambda>e. (interest e, AmortizationEntry.principal e, amount_due e))
      (generateAmortizationSchedule 200 0 3 (Date 2024 1 15))
     = [(0, 6667 / 100, 6667 / 100), (0, 6667 / 100, 6667 / 100), (0, 6667 / 100, 6667 / 100)] \<and>
   sum_list (map AmortizationEntry.principal
      (generateAmortizationSchedule 200 0 3 (Date 2024 1 15))) = 20001 / 100"
  by (simp add: generateAmortizationSchedule_def calculateMonthlyPayment_def
      schedule_loop.simps Let_def round2_def Math_round_def daysInMonth_def)




text \<open>
  C6: \<open>calculateMonthlyPayment\<close> is the payment formula of the specification: 0 when
  the principal or the term is not positive, the unrounded quotient principal / months
  at rate 0, and otherwise principal * [r(1+r)^months] / [(1+r)^months - 1] with
  r = annualRate / 100 / 12. The function is total: it has no error result. (The
  denominator vanishes only at the rate -2400 with an even term, where the value of the
  source is not finite.)
\<close>

theorem calculateMonthlyPayment_formula:
  "calculateMonthlyPayment p a m = monthlyPayment_spec p a m"
  by (simp add: calculateMonthlyPayment_def monthlyPayment_spec_def Let_def Math_pow_def)

text \<open>
  C7: \<open>calculatePayoffAmount\<close> is the sum of the principal of all rows minus the sum
  of the principal of the rows with status paid, rounded to cents; it reads no other
  field of a row. For the rows (100, paid), (200, pending), (150, late) it is 350.
\<close>

theorem calculatePayoffAmount_unpaid_principal:
  "calculatePayoffAmount ps =
     round2 (sum_list (map PaymentRow.principal ps)
             - sum_list (map PaymentRow.principal (filter (\<lambda>p. status p = ''paid'') ps))) \<and>
   calculatePayoffAmount
     [\<lparr>status = ''paid'', principal = 100\<rparr>,
      \<lparr>status = ''pending'', principal = 200\<rparr>,
      \<lparr>status = ''late'', principal = 150\<rparr>] = 350"
  by (simp add: calculatePayoffAmount_def foldl_sum round2_def Math_round_def)

text \<open>
  C8: the three fields returned by \<open>calculateSaleDetails\<close> are roundings to cents:
  the finance amount of max(0, salePrice - downPayment), the monthly payment of the
  value of \<open>calculateMonthlyPayment\<close>, and the total payment of that unrounded monthly
  payment times the term plus the down payment. For a sale price of 10000, a down
  payment of 2000, a rate of 9.9 and a term of 60 the finance amount is 8000.
\<close>

theorem calculateSaleDetails_fields:
  "finance_amount (calculateSaleDetails fd)
     = round2 (max 0 (sale_price fd - down_payment fd)) \<and>
   monthly_payment (calculateSaleDetails fd)
     = round2 (calculateMonthlyPayment (max 0 (sale_price fd - down_payment fd))
                 (interest_rate fd) (term_months fd)) \<and>
   total_payment (calculateSaleDetails fd)
     = round2 (calculateMonthlyPayment (max 0 (sale_price fd - down_payment fd))
                 (interest_rate fd) (term_months fd) * of_int (term_months fd)
               + down_payment fd) \<and>
   is_cents (finance_amount (calculateSaleDetails fd)) \<and>
   is_cents (monthly_payment (calculateSaleDetails fd)) \<and>
   is_cents (total_payment (calculateSaleDetails fd)) \<and>
   finance_amount (calculateSaleDetails
     \<lparr>property_id = pid, buyer_id = bid, sale_date = sdate, sale_price = 10000,
      down_payment = 2000, interest_rate = 99 / 10, term_months = 60\<rparr>) = 8000"
  by (simp add: calculateSaleDetails_def calculateFinanceAmount_def calculateTotalPayment_def
      Let_def is_cents_round2) (simp add: round2_def Math_round_def)

text \<open>
  C9: for every finance amount (also 0 and negative), every rate and every start date
  the schedule has exactly as many entries as the term says when the term is at least 1,
  and it is empty exactly when the term is at most 0. A finance amount of 0 over 60
  months gives 60 entries whose amount due, principal, interest and balance are all 0.
\<close>

theorem schedule_has_term_entries:
  "length (generateAmortizationSchedule fa ar months d) = nat months \<and>
   (generateAmortizationSchedule fa ar months d = [] \<longleftrightarrow> months \<le> 0) \<and>
   length (generateAmortizationSchedule 0 ar 60 d) = 60 \<and>
   (\<forall>e \<in> set (generateAmortizationSchedule 0 ar 60 d).
      amount_due e = 0 \<and> AmortizationEntry.principal e = 0 \<and> interest e = 0 \<and> balance e = 0)"
proof -
  have len: "length (generateAmortizationSchedule x y n d) = nat n" for x y n
    by (rule schedule_length)
  have "generateAmortizationSchedule fa ar months d = [] \<longleftrightarrow> months \<le> 0"
    using len[of fa ar months] by (metis length_0_conv nat_0_iff)
  moreover have "\<forall>e \<in> set (generateAmortizationSchedule 0 ar 60 d).
      amount_due e = 0 \<and> AmortizationEntry.principal e = 0 \<and> interest e = 0 \<and> balance e = 0"
    using schedule_loop_zero[of ar "ar / 100 / 12" 60 d 1]
    by (simp add: generateAmortizationSchedule_def calculateMonthlyPayment_def Let_def)
  ultimately show ?thesis using len by simp
qed

theorem schedule_has_term_entries_witness:
  "hd (generateAmortizationSchedule 0 5 60 (Date 2024 1 15))
     \<in> set (generateAmortizationSchedule 0 5 60 (Date 2024 1 15)) \<and>
   amount_due (hd (generateAmortizationSchedule 0 5 60 (Date 2024 1 15))) = 0 \<and>
   AmortizationEntry.principal (hd (generateAmortizationSchedule 0 5 60 (Date 2024 1 15))) = 0 \<and>
   interest (hd (generateAmortizationSchedule 0 5 60 (Date 2024 1 15))) = 0 \<and>
   balance (hd (generateAmortizationSchedule 0 5 60 (Date 2024 1 15))) = 0 \<and>
   length (generateAmortizationSchedule (- 50) 5 3 (Date 2024 1 15)) = 3"
proof -
  note t = schedule_has_term_entries[of 0 5 60 "Date 2024 1 15"]
  have "generateAmortizationSchedule 0 5 60 (Date 2024 1 15) \<noteq> []"
    using t by simp
  then have "hd (generateAmortizationSchedule 0 5 60 (Date 2024 1 15))
     \<in> set (generateAmortizationSchedule 0 5 60 (Date 2024 1 15))"
    by (rule hd_in_set)
  then show ?thesis
    using t schedule_has_term_entries[of "- 50" 5 3 "Date 2024 1 15"] by simp
qed



end
